theory Spec2Isabelle
  imports Main "HOL-Library.Word"
begin

section \<open>Values shared by the Go sources\<close>

text \<open>
  A \<open>float64\<close> is carried as its IEEE-754 bit pattern: the code under study only copies
  latitudes and longitudes. A \<open>time.Time\<close> is the number of nanoseconds since the zero
  time (January 1, year 1, 00:00:00 UTC), so the zero value of the Go type is \<open>0\<close>.
  Go's \<open>int\<close> fields are only copied and compared here, so they are integers.
\<close>

type_synonym float64 = "64 word"
type_synonym Time = int

text \<open>
  A Go \<open>error\<close>: \<open>errors.New(msg)\<close>, or \<open>fmt.Errorf(format, args...)\<close> kept with its
  format string and its arguments (a \<open>%w\<close> argument is the wrapped error).
\<close>

datatype error = New string | Errorf string "fmt_arg list"
and fmt_arg = ArgInt int | ArgString string | ArgError error

section \<open>types.go\<close>

record Station =
  StationID :: string
  Name :: string
  Lat :: float64
  Lon :: float64
  Capacity :: int
  CreatedAt :: Time
  UpdatedAt :: Time

definition Station_Validate :: "Station \<Rightarrow> error option" where
  "Station_Validate s =
     (if Station.StationID s = [] then Some (New ''station ID is required'')
      else if Station.Name s = [] then Some (New ''station name is required'')
      else if Station.Capacity s < 0 then Some (New ''capacity cannot be negative'')
      else None)"

record StationAvailability =
  ID :: int
  StationID :: string
  NumBikesAvailable :: int
  NumDocksAvailable :: int
  IsInstalled :: int
  IsRenting :: int
  IsReturning :: int
  LastReported :: int
  RecordedAt :: Time

record DivvyStation =
  StationID :: string
  Name :: string
  Lat :: float64
  Lon :: float64
  Capacity :: int

record DivvyStationStatus =
  StationID :: string
  NumBikesAvailable :: int
  NumDocksAvailable :: int
  IsInstalled :: int
  IsRenting :: int
  IsReturning :: int
  LastReported :: int

record Prediction =
  ID :: int
  StationID :: string
  PredictedAvailabilityClass :: int
  AvailabilityPrediction :: string
  PredictionTime :: Time
  HorizonHours :: int
  CreatedAt :: Time

text \<open>
  The interfaces \<open>DivvyClientInterface\<close> and \<open>DatabaseInterface\<close> are given by what
  their methods return: the collaborators are the environment of the services, as the
  mocks of the test files are. A method returning \<open>(values, error)\<close> keeps both
  components, since Go returns both.
\<close>

record DivvyClientInterface =
  FetchStationData :: "DivvyStation list \<times> DivvyStationStatus list \<times> error option"

record DatabaseInterface =
  UpsertStations :: "Station list \<Rightarrow> error option"
  InsertAvailabilities :: "StationAvailability list \<Rightarrow> error option"
  InsertPredictions :: "Prediction list \<Rightarrow> error option"
  GetLatestPredictions :: "Prediction list \<times> error option"

text \<open>The persistence calls a use case makes, in order, with their arguments.\<close>

datatype db_call =
    UpsertStations_call "Station list"
  | InsertAvailabilities_call "StationAvailability list"
  | InsertPredictions_call "Prediction list"

section \<open>station\_service.go\<close>

record StationService =
  database :: DatabaseInterface
  divvyClient :: DivvyClientInterface

definition convertToStation :: "DivvyStation \<Rightarrow> Station" where
  "convertToStation divvyStation =
     \<lparr> Station.StationID = DivvyStation.StationID divvyStation,
       Station.Name = DivvyStation.Name divvyStation,
       Station.Lat = DivvyStation.Lat divvyStation,
       Station.Lon = DivvyStation.Lon divvyStation,
       Station.Capacity = DivvyStation.Capacity divvyStation,
       Station.CreatedAt = 0,
       Station.UpdatedAt = 0 \<rparr>"

definition convertToAvailability :: "DivvyStationStatus \<Rightarrow> StationAvailability" where
  "convertToAvailability divvyStatus =
     \<lparr> StationAvailability.ID = 0,
       StationAvailability.StationID = DivvyStationStatus.StationID divvyStatus,
       StationAvailability.NumBikesAvailable = DivvyStationStatus.NumBikesAvailable divvyStatus,
       StationAvailability.NumDocksAvailable = DivvyStationStatus.NumDocksAvailable divvyStatus,
       StationAvailability.IsInstalled = DivvyStationStatus.IsInstalled divvyStatus,
       StationAvailability.IsRenting = DivvyStationStatus.IsRenting divvyStatus,
       StationAvailability.IsReturning = DivvyStationStatus.IsReturning divvyStatus,
       StationAvailability.LastReported = DivvyStationStatus.LastReported divvyStatus,
       StationAvailability.RecordedAt = 0 \<rparr>"

text \<open>
  The two conversion loops of \<open>RefreshStationData\<close> have the shape
  \<^verbatim>\<open>out := make([]T, len(src)); for i, x := range src { out[i] = f(x) }\<close>.
  \<open>range_assign f i src out\<close> is the loop from index \<open>i\<close> on; \<open>zero\<close> is the zero value
  the slice is made of.
\<close>

fun range_assign :: "('a \<Rightarrow> 'b) \<Rightarrow> nat \<Rightarrow> 'a list \<Rightarrow> 'b list \<Rightarrow> 'b list" where
  "range_assign f i [] out = out"
| "range_assign f i (x # src) out = range_assign f (Suc i) src (out[i := f x])"

definition make_and_fill :: "'b \<Rightarrow> ('a \<Rightarrow> 'b) \<Rightarrow> 'a list \<Rightarrow> 'b list" where
  "make_and_fill zero f src = range_assign f 0 src (replicate (length src) zero)"

definition zero_Station :: Station where
  "zero_Station =
     \<lparr> Station.StationID = [], Station.Name = [], Station.Lat = 0, Station.Lon = 0,
       Station.Capacity = 0, Station.CreatedAt = 0, Station.UpdatedAt = 0 \<rparr>"

definition zero_StationAvailability :: StationAvailability where
  "zero_StationAvailability =
     \<lparr> StationAvailability.ID = 0, StationAvailability.StationID = [],
       StationAvailability.NumBikesAvailable = 0, StationAvailability.NumDocksAvailable = 0,
       StationAvailability.IsInstalled = 0, StationAvailability.IsRenting = 0,
       StationAvailability.IsReturning = 0, StationAvailability.LastReported = 0,
       StationAvailability.RecordedAt = 0 \<rparr>"

text \<open>
  \<open>RefreshStationData s tr\<close> returns the error of the call (\<open>None\<close> for \<open>nil\<close>) and the
  trace \<open>tr\<close> extended by the persistence calls it made. A call is recorded when it is
  made, whatever it returns.
\<close>

definition RefreshStationData :: "StationService \<Rightarrow> db_call list \<Rightarrow> error option \<times> db_call list" where
  "RefreshStationData s tr =
     (case FetchStationData (divvyClient s) of
        (stations, statuses, Some err) \<Rightarrow> (Some err, tr)
      | (stations, statuses, None) \<Rightarrow>
          (let dbStations = make_and_fill zero_Station convertToStation stations;
               availabilities = make_and_fill zero_StationAvailability convertToAvailability statuses;
               tr1 = tr @ [UpsertStations_call dbStations]
           in case UpsertStations (database s) dbStations of
                Some err \<Rightarrow> (Some (Errorf ''failed to store stations: %w'' [ArgError err]), tr1)
              | None \<Rightarrow>
                  (let tr2 = tr1 @ [InsertAvailabilities_call availabilities]
                   in case InsertAvailabilities (database s) availabilities of
                        Some err \<Rightarrow>
                          (Some (Errorf ''failed to store availabilities: %w'' [ArgError err]), tr2)
                      | None \<Rightarrow> (None, tr2))))"

section \<open>The prediction gateway and the inference orchestrator\<close>

text \<open>
  The element type of \<open>PredictionResponse.Predictions\<close> is an anonymous struct in the
  source; it is named \<open>RawPrediction\<close> here.
\<close>

record RawPrediction =
  StationID :: string
  PredictedAvailabilityClass :: int
  PredictionTime :: string
  HorizonHours :: int
  AvailabilityPrediction :: string

record PredictionResponse =
  Predictions :: "RawPrediction list"
  Count :: int
  Timestamp :: string

text \<open>The \<open>range\<close> loop of \<open>Validate\<close>, from index \<open>i\<close> on.\<close>

fun Validate_range :: "nat \<Rightarrow> RawPrediction list \<Rightarrow> error option" where
  "Validate_range i [] = None"
| "Validate_range i (pred # rest) =
     (if RawPrediction.StationID pred = []
      then Some (Errorf ''prediction %d missing station ID'' [ArgInt (int i)])
      else if RawPrediction.PredictionTime pred = []
      then Some (Errorf ''prediction %d missing prediction time'' [ArgInt (int i)])
      else Validate_range (Suc i) rest)"

definition PredictionResponse_Validate :: "PredictionResponse \<Rightarrow> error option" where
  "PredictionResponse_Validate p =
     (if length (Predictions p) = 0 then Some (New ''no predictions in response'')
      else if Count p \<noteq> int (length (Predictions p)) then Some (New ''prediction count mismatch'')
      else Validate_range 0 (Predictions p))"

text \<open>
  The HTTP round trip of \<open>GetPredictions\<close> is the environment of the gateway:
  \<open>newRequest\<close> is the error of \<open>http.NewRequestWithContext\<close>, \<open>do\<close> the result of
  \<open>client.Do\<close>, \<open>decode\<close> the JSON decoder applied to the body of the response.
\<close>

record HTTPResponse =
  StatusCode :: int
  Body :: string

record MLService =
  newRequest :: "error option"
  do :: "error + HTTPResponse"
  decode :: "string \<Rightarrow> error + PredictionResponse"

definition GetPredictions :: "MLService \<Rightarrow> error + PredictionResponse" where
  "GetPredictions m =
     (case newRequest m of
        Some err \<Rightarrow> Inl (Errorf ''create request: %w'' [ArgError err])
      | None \<Rightarrow>
          (case do m of
             Inl err \<Rightarrow> Inl (Errorf ''ML service request: %w'' [ArgError err])
           | Inr resp \<Rightarrow>
               if StatusCode resp \<noteq> 200
               then Inl (Errorf ''ML service error %d: %s''
                           [ArgInt (StatusCode resp), ArgString (Body resp)])
               else
                 (case decode m (Body resp) of
                    Inl err \<Rightarrow> Inl (Errorf ''decode response: %w'' [ArgError err])
                  | Inr predictionResp \<Rightarrow>
                      (case PredictionResponse_Validate predictionResp of
                         Some err \<Rightarrow> Inl (Errorf ''invalid response: %w'' [ArgError err])
                       | None \<Rightarrow> Inr predictionResp))))"

text \<open>
  The wall clock read by \<open>time.Now()\<close>: \<open>readings c k\<close> is what the \<open>k\<close>-th read
  returns and \<open>reads c\<close> counts the reads made so far.
\<close>

record Clock =
  readings :: "nat \<Rightarrow> Time"
  reads :: nat

definition time_Now :: "Clock \<Rightarrow> Time \<times> Clock" where
  "time_Now c = (readings c (reads c), c\<lparr>reads := Suc (reads c)\<rparr>)"

definition zero_Prediction :: Prediction where
  "zero_Prediction =
     \<lparr> Prediction.ID = 0, Prediction.StationID = [],
       Prediction.PredictedAvailabilityClass = 0, Prediction.AvailabilityPrediction = [],
       Prediction.PredictionTime = 0, Prediction.HorizonHours = 0,
       Prediction.CreatedAt = 0 \<rparr>"

text \<open>
  The loop of \<open>convertPredictions\<close> from index \<open>i\<close> on. \<open>parse\<close> stands for
  \<open>time.Parse(time.RFC3339, _)\<close>, a function of the Go library. The clock is read only
  in the iterations whose string does not parse. \<open>Prediction_literal\<close> is the struct
  literal of the loop body; the fields it does not name keep their zero values.
\<close>

definition Prediction_literal :: "RawPrediction \<Rightarrow> Time \<Rightarrow> Prediction" where
  "Prediction_literal pred predTime =
     \<lparr> Prediction.ID = 0,
       Prediction.StationID = RawPrediction.StationID pred,
       Prediction.PredictedAvailabilityClass = RawPrediction.PredictedAvailabilityClass pred,
       Prediction.AvailabilityPrediction = RawPrediction.AvailabilityPrediction pred,
       Prediction.PredictionTime = predTime,
       Prediction.HorizonHours = RawPrediction.HorizonHours pred,
       Prediction.CreatedAt = 0 \<rparr>"

fun convert_range ::
  "(string \<Rightarrow> error + Time) \<Rightarrow> nat \<Rightarrow> RawPrediction list \<Rightarrow> Prediction list \<Rightarrow> Clock
   \<Rightarrow> Prediction list \<times> Clock" where
  "convert_range parse i [] predictions c = (predictions, c)"
| "convert_range parse i (pred # rest) predictions c =
     (case (case parse (RawPrediction.PredictionTime pred) of
              Inr t \<Rightarrow> (t, c)
            | Inl err \<Rightarrow> time_Now c) of
        (predTime, c') \<Rightarrow>
          convert_range parse (Suc i) rest (predictions[i := Prediction_literal pred predTime]) c')"

definition convertPredictions ::
  "(string \<Rightarrow> error + Time) \<Rightarrow> RawPrediction list \<Rightarrow> Clock \<Rightarrow> (error + Prediction list) \<times> Clock" where
  "convertPredictions parse rawPredictions c =
     (case convert_range parse 0 rawPredictions
             (replicate (length rawPredictions) zero_Prediction) c of
        (predictions, c') \<Rightarrow> (Inr predictions, c'))"

record InferenceService =
  mlService :: "error + PredictionResponse"
  database :: DatabaseInterface

definition RunInferenceWithResults ::
  "(string \<Rightarrow> error + Time) \<Rightarrow> InferenceService \<Rightarrow> Clock \<Rightarrow> db_call list
   \<Rightarrow> error option \<times> Clock \<times> db_call list" where
  "RunInferenceWithResults parse s c tr =
     (case mlService s of
        Inl err \<Rightarrow> (Some (Errorf ''get predictions: %w'' [ArgError err]), c, tr)
      | Inr resp \<Rightarrow>
          (case convertPredictions parse (Predictions resp) c of
             (Inl err, c') \<Rightarrow> (Some (Errorf ''convert predictions: %w'' [ArgError err]), c', tr)
           | (Inr predictions, c') \<Rightarrow>
               (case InsertPredictions (InferenceService.database s) predictions of
                  Some err \<Rightarrow>
                    (Some (Errorf ''store predictions: %w'' [ArgError err]), c',
                     tr @ [InsertPredictions_call predictions])
                | None \<Rightarrow> (None, c', tr @ [InsertPredictions_call predictions]))))"

section \<open>http\_handlers.go: the health endpoint\<close>

text \<open>
  A response written with \<open>c.JSON(code, gin.H{...})\<close>: the status code and the fields of
  the JSON object.
\<close>

datatype json = JString string | JInt int

record Response =
  code :: int
  body :: "(string \<times> json) list"

definition HealthCheck :: "DatabaseInterface \<Rightarrow> Response" where
  "HealthCheck db =
     (case GetLatestPredictions db of
        (predictions, err) \<Rightarrow>
          if err \<noteq> None \<or> length predictions = 0
          then \<lparr> code = 503,
                 body = [(''status'', JString ''unhealthy''),
                           (''service'', JString ''divvy-api''),
                           (''reason'', JString ''predictions not available'')] \<rparr>
          else \<lparr> code = 200,
                 body = [(''status'', JString ''healthy''),
                           (''service'', JString ''divvy-api''),
                           (''predictions_count'', JInt (int (length predictions)))] \<rparr>)"

section \<open>database.go: the bulk writes\<close>

text \<open>
  The SQL driver is the environment of \<open>Database\<close>. Every operation the code asks of
  \<open>database/sql\<close> is appended to \<open>oplog\<close>; \<open>driver d n op\<close> is the error the driver
  returns when \<open>op\<close> is the \<open>n\<close>-th operation asked of it.
\<close>

datatype sql_value = SqlString string | SqlInt int | SqlFloat float64 | SqlTime Time

datatype sql_op =
    BeginTx
  | PrepareContext string
  | ExecContext "sql_value list"
  | StmtClose
  | Commit
  | Rollback

record Database =
  oplog :: "sql_op list"
  driver :: "nat \<Rightarrow> sql_op \<Rightarrow> error option"

definition run_op :: "sql_op \<Rightarrow> Database \<Rightarrow> error option \<times> Database" where
  "run_op op d = (driver d (length (oplog d)) op, d\<lparr>oplog := oplog d @ [op]\<rparr>)"

text \<open>The statements, with the white space of the source's raw strings reduced to single blanks.\<close>

definition queryUpsertStation :: string where
  "queryUpsertStation =
     ''INSERT INTO stations (station_id, name, lat, lon, capacity) VALUES ($1, $2, $3, $4, $5) ''
     @ ''ON CONFLICT (station_id) DO UPDATE SET name = EXCLUDED.name, lat = EXCLUDED.lat, ''
     @ ''lon = EXCLUDED.lon, capacity = EXCLUDED.capacity, updated_at = CURRENT_TIMESTAMP''"

definition queryInsertAvailability :: string where
  "queryInsertAvailability =
     ''INSERT INTO station_availability (station_id, num_bikes_available, num_docks_available, ''
     @ ''is_installed, is_renting, is_returning, last_reported) VALUES ($1, $2, $3, $4, $5, $6, $7)''"

definition queryInsertPrediction :: string where
  "queryInsertPrediction =
     ''INSERT INTO predictions (station_id, predicted_availability_class, availability_prediction, ''
     @ ''prediction_time, horizon_hours) VALUES ($1, $2, $3, $4, $5)''"

text \<open>The \<open>range\<close> loops that execute the prepared statement once per record.\<close>

fun exec_stations :: "Station list \<Rightarrow> Database \<Rightarrow> error option \<times> Database" where
  "exec_stations [] d = (None, d)"
| "exec_stations (station # rest) d =
     (case run_op (ExecContext [SqlString (Station.StationID station), SqlString (Station.Name station),
                                SqlFloat (Station.Lat station), SqlFloat (Station.Lon station),
                                SqlInt (Station.Capacity station)]) d of
        (Some err, d') \<Rightarrow>
          (Some (Errorf ''exec station %s: %w'' [ArgString (Station.StationID station), ArgError err]), d')
      | (None, d') \<Rightarrow> exec_stations rest d')"

fun exec_availabilities :: "StationAvailability list \<Rightarrow> Database \<Rightarrow> error option \<times> Database" where
  "exec_availabilities [] d = (None, d)"
| "exec_availabilities (availability # rest) d =
     (case run_op (ExecContext [SqlString (StationAvailability.StationID availability),
                                SqlInt (StationAvailability.NumBikesAvailable availability),
                                SqlInt (StationAvailability.NumDocksAvailable availability),
                                SqlInt (StationAvailability.IsInstalled availability),
                                SqlInt (StationAvailability.IsRenting availability),
                                SqlInt (StationAvailability.IsReturning availability),
                                SqlInt (StationAvailability.LastReported availability)]) d of
        (Some err, d') \<Rightarrow>
          (Some (Errorf ''exec availability %s: %w''
                   [ArgString (StationAvailability.StationID availability), ArgError err]), d')
      | (None, d') \<Rightarrow> exec_availabilities rest d')"

fun exec_predictions :: "Prediction list \<Rightarrow> Database \<Rightarrow> error option \<times> Database" where
  "exec_predictions [] d = (None, d)"
| "exec_predictions (pred # rest) d =
     (case run_op (ExecContext [SqlString (Prediction.StationID pred),
                                SqlInt (Prediction.PredictedAvailabilityClass pred),
                                SqlString (Prediction.AvailabilityPrediction pred),
                                SqlTime (Prediction.PredictionTime pred),
                                SqlInt (Prediction.HorizonHours pred)]) d of
        (Some err, d') \<Rightarrow>
          (Some (Errorf ''insert prediction for station %s: %w''
                   [ArgString (Prediction.StationID pred), ArgError err]), d')
      | (None, d') \<Rightarrow> exec_predictions rest d')"

text \<open>
  A deferred call runs when the function returns, the last deferred first: after
  \<open>PrepareContext\<close> has succeeded that is \<open>stmt.Close()\<close> and then \<open>tx.Rollback()\<close>, whose
  errors are dropped.
\<close>

definition deferred_Rollback :: "Database \<Rightarrow> Database" where
  "deferred_Rollback d = snd (run_op Rollback d)"

definition deferred_Close_Rollback :: "Database \<Rightarrow> Database" where
  "deferred_Close_Rollback d = deferred_Rollback (snd (run_op StmtClose d))"

definition Database_UpsertStations :: "Database \<Rightarrow> Station list \<Rightarrow> error option \<times> Database" where
  "Database_UpsertStations d stations =
     (if length stations = 0 then (None, d)
      else
        (case run_op BeginTx d of
           (Some err, d1) \<Rightarrow> (Some (Errorf ''begin transaction: %w'' [ArgError err]), d1)
         | (None, d1) \<Rightarrow>
             (case run_op (PrepareContext queryUpsertStation) d1 of
                (Some err, d2) \<Rightarrow>
                  (Some (Errorf ''prepare statement: %w'' [ArgError err]), deferred_Rollback d2)
              | (None, d2) \<Rightarrow>
                  (case exec_stations stations d2 of
                     (Some err, d3) \<Rightarrow> (Some err, deferred_Close_Rollback d3)
                   | (None, d3) \<Rightarrow>
                       (case run_op Commit d3 of
                          (r, d4) \<Rightarrow> (r, deferred_Close_Rollback d4))))))"

definition Database_InsertAvailabilities ::
  "Database \<Rightarrow> StationAvailability list \<Rightarrow> error option \<times> Database" where
  "Database_InsertAvailabilities d availabilities =
     (if length availabilities = 0 then (None, d)
      else
        (case run_op BeginTx d of
           (Some err, d1) \<Rightarrow> (Some (Errorf ''begin transaction: %w'' [ArgError err]), d1)
         | (None, d1) \<Rightarrow>
             (case run_op (PrepareContext queryInsertAvailability) d1 of
                (Some err, d2) \<Rightarrow>
                  (Some (Errorf ''prepare statement: %w'' [ArgError err]), deferred_Rollback d2)
              | (None, d2) \<Rightarrow>
                  (case exec_availabilities availabilities d2 of
                     (Some err, d3) \<Rightarrow> (Some err, deferred_Close_Rollback d3)
                   | (None, d3) \<Rightarrow>
                       (case run_op Commit d3 of
                          (r, d4) \<Rightarrow> (r, deferred_Close_Rollback d4))))))"

definition withTransaction ::
  "Database \<Rightarrow> (Database \<Rightarrow> error option \<times> Database) \<Rightarrow> error option \<times> Database" where
  "withTransaction d fn =
     (case run_op BeginTx d of
        (Some err, d1) \<Rightarrow> (Some (Errorf ''begin transaction: %w'' [ArgError err]), d1)
      | (None, d1) \<Rightarrow>
          (case fn d1 of
             (Some err, d2) \<Rightarrow> (Some err, deferred_Rollback d2)
           | (None, d2) \<Rightarrow>
               (case run_op Commit d2 of
                  (r, d3) \<Rightarrow> (r, deferred_Rollback d3))))"

definition Database_InsertPredictions :: "Database \<Rightarrow> Prediction list \<Rightarrow> error option \<times> Database" where
  "Database_InsertPredictions d predictions =
     (if length predictions = 0 then (None, d)
      else
        withTransaction d
          (\<lambda>tx.
             case run_op (PrepareContext queryInsertPrediction) tx of
               (Some err, tx1) \<Rightarrow> (Some (Errorf ''prepare statement: %w'' [ArgError err]), tx1)
             | (None, tx1) \<Rightarrow>
                 (case exec_predictions predictions tx1 of
                    (r, tx2) \<Rightarrow> (r, snd (run_op StmtClose tx2)))))"

section \<open>The configuration\<close>

text \<open>
  Go's \<open>int\<close> is 64 bits wide on the platforms the service is built for. The timing
  values enter arithmetic, so they are words; \<open>sint\<close> reads them.
\<close>

type_synonym go_int = "64 word"

record DatabaseConfig =
  URL :: string

record ServerConfig =
  Port :: string
  Environment :: string

record TimingConfig =
  DataCollectionIntervalMin :: go_int
  PredictionIntervalHours :: go_int
  ServerShutdownTimeoutSec :: go_int
  MLServiceMaxWaitMin :: go_int
  MLServiceCheckIntervalSec :: go_int

record Config =
  Database :: DatabaseConfig
  Server :: ServerConfig
  Timing :: TimingConfig

definition Config_Validate :: "Config \<Rightarrow> error option" where
  "Config_Validate c =
     (if URL (Database c) = [] then Some (New ''DB_URL is required but not provided'')
      else if sint (DataCollectionIntervalMin (Timing c)) \<le> 0
      then Some (New ''data collection interval must be positive'')
      else if Port (Server c) = [] then Some (New ''server port is required'')
      else None)"

section \<open>Go's time and context packages, as far as the scheduler uses them\<close>

text \<open>
  Modelled from the documentation of the Go library, which is not code of this
  repository. A \<open>time.Duration\<close> is an \<open>int64\<close> count of nanoseconds, and its arithmetic
  wraps around. \<open>Truncate\<close> rounds down to a multiple of \<open>d\<close> since the zero time and
  returns its argument when \<open>d \<le> 0\<close>; \<open>Sub\<close> saturates at the least and the greatest
  duration; a timer made by \<open>time.After(d)\<close> is ready \<open>d\<close> after it was made, at once
  when \<open>d \<le> 0\<close>. Instants are those of a virtual clock on which timers fire exactly
  when they are due.
\<close>

type_synonym Duration = "64 word"

definition Second :: Duration where
  "Second = 1000000000"

definition Minute :: Duration where
  "Minute = 60 * Second"

definition Hour :: Duration where
  "Hour = 60 * Minute"

definition time_Truncate :: "Time \<Rightarrow> Duration \<Rightarrow> Time" where
  "time_Truncate t d = (if sint d \<le> 0 then t else t - t mod sint d)"

definition time_Add :: "Time \<Rightarrow> Duration \<Rightarrow> Time" where
  "time_Add t d = t + sint d"

definition time_Sub :: "Time \<Rightarrow> Time \<Rightarrow> Duration" where
  "time_Sub t u =
     (if t - u < - (2 ^ 63) then word_of_int (- (2 ^ 63))
      else if 2 ^ 63 - 1 < t - u then word_of_int (2 ^ 63 - 1)
      else word_of_int (t - u))"

definition time_After :: "Time \<Rightarrow> Duration \<Rightarrow> Time" where
  "time_After now d = now + max 0 (sint d)"

text \<open>
  A context is \<open>context.Background()\<close>, whose \<open>Done\<close> channel is never ready, or a
  context with a cancel function, called at the given instant or never. \<open>done_at\<close> is
  the instant from which \<open>Done\<close> is ready.
\<close>

datatype Context = Background | WithCancel "Time option"

fun done_at :: "Context \<Rightarrow> Time option" where
  "done_at Background = None"
| "done_at (WithCancel c) = c"

text \<open>
  A ticker made at \<open>created\<close> sends a tick every \<open>period\<close> nanoseconds and drops the
  ticks a slow receiver misses; after \<open>Stop\<close> no tick is sent. \<open>time.NewTicker\<close> panics
  on a period that is not positive (\<open>None\<close>). \<open>tick_ready tk prev\<close> is the instant of
  the first tick after the receive at \<open>prev\<close>, if it is sent at all.
\<close>

record Ticker =
  created :: Time
  period :: int
  stopped_at :: "Time option"

definition NewTicker :: "Time \<Rightarrow> Duration \<Rightarrow> Ticker option" where
  "NewTicker now d =
     (if sint d \<le> 0 then None
      else Some \<lparr> created = now, period = sint d, stopped_at = None \<rparr>)"

definition Ticker_Stop :: "Time \<Rightarrow> Ticker \<Rightarrow> Ticker" where
  "Ticker_Stop now tk = (case stopped_at tk of None \<Rightarrow> tk\<lparr>stopped_at := Some now\<rparr> | Some s \<Rightarrow> tk)"

definition next_tick :: "Ticker \<Rightarrow> Time \<Rightarrow> Time" where
  "next_tick tk prev = created tk + ((prev - created tk) div period tk + 1) * period tk"

definition tick_ready :: "Ticker \<Rightarrow> Time \<Rightarrow> Time option" where
  "tick_ready tk prev =
     (case stopped_at tk of
        None \<Rightarrow> Some (next_tick tk prev)
      | Some s \<Rightarrow> if next_tick tk prev < s then Some (next_tick tk prev) else None)"

text \<open>
  A \<open>select\<close> over \<open>ctx.Done()\<close> and one other channel, entered at instant \<open>t\<close>. Each
  channel is given by the instant from which it is ready, if ever. The case that is
  ready first is taken; when both are ready at the same instant Go picks either, which
  is the choice \<open>pick\<close> of the environment.
\<close>

datatype woke = Done_first Time | Other_first Time | Never

definition select2 :: "(Time \<Rightarrow> bool) \<Rightarrow> Time option \<Rightarrow> Time option \<Rightarrow> Time \<Rightarrow> woke" where
  "select2 pick done other t =
     (case (done, other) of
        (None, None) \<Rightarrow> Never
      | (Some c, None) \<Rightarrow> Done_first (max c t)
      | (None, Some f) \<Rightarrow> Other_first (max f t)
      | (Some c, Some f) \<Rightarrow>
          if max c t < max f t then Done_first (max c t)
          else if max f t < max c t then Other_first (max f t)
          else if pick (max c t) then Done_first (max c t)
          else Other_first (max f t))"

section \<open>server.go: the two loops\<close>

text \<open>
  The environment of the loops: how long the \<open>k\<close>-th call of a use case takes (in
  nanoseconds), what the \<open>k\<close>-th inference run returns, how long the HTTP server takes to
  shut down, and the choices of \<open>select\<close>.
\<close>

record Env =
  refresh_took :: "nat \<Rightarrow> nat"
  inference_result :: "nat \<Rightarrow> error option"
  inference_took :: "nat \<Rightarrow> nat"
  shutdown_took :: nat
  pick_done :: "Time \<Rightarrow> bool"

text \<open>
  What a loop does, with the instant at which it does it: the calls of the use cases,
  the return after \<open>ctx.Done()\<close>, a panic, and \<open>Blocked\<close> for a \<open>select\<close> none of whose
  channels will ever be ready.
\<close>

datatype event =
    RefreshCall Time
  | InitialInference Time
  | ScheduledInference Time
  | ShuttingDown Time
  | Panicked string
  | Blocked

text \<open>
  The loop \<^verbatim>\<open>for { select { case <-ctx.Done(): return; case <-ticker.C: work() } }\<close>
  that ends both goroutines, run for at most \<open>n\<close> iterations. \<open>call\<close> names the work,
  \<open>took\<close> gives its duration, \<open>prev\<close> is the instant of the previous receive from the
  ticker, \<open>t\<close> the instant at which the \<open>select\<close> is entered and \<open>k\<close> the number of calls
  made so far.
\<close>

fun ticker_loop ::
  "nat \<Rightarrow> (Time \<Rightarrow> event) \<Rightarrow> (nat \<Rightarrow> nat) \<Rightarrow> Context \<Rightarrow> Env \<Rightarrow> Ticker \<Rightarrow> Time \<Rightarrow> Time \<Rightarrow> nat
   \<Rightarrow> event list" where
  "ticker_loop 0 call took ctx env tk prev t k = []"
| "ticker_loop (Suc n) call took ctx env tk prev t k =
     (case select2 (pick_done env) (done_at ctx) (tick_ready tk prev) t of
        Never \<Rightarrow> [Blocked]
      | Done_first c \<Rightarrow> [ShuttingDown c]
      | Other_first r \<Rightarrow>
          call r # ticker_loop n call took ctx env tk r (r + int (took k)) (Suc k))"

text \<open>
  The goroutine of \<open>startDataCollection\<close>, started at instant \<open>now\<close>; the result lists
  what it does up to \<open>n\<close> ticks of its ticker. The ticker is made inside the goroutine,
  after the first fetch has returned, and is stopped only when the goroutine returns.
\<close>

definition startDataCollection :: "Config \<Rightarrow> Context \<Rightarrow> Env \<Rightarrow> Time \<Rightarrow> nat \<Rightarrow> event list" where
  "startDataCollection cfg ctx env now n =
     (let interval = DataCollectionIntervalMin (Timing cfg) * Minute;
          nextInterval = time_Add (time_Truncate now interval) interval;
          timeUntilNext = time_Sub nextInterval now
      in case select2 (pick_done env) (done_at ctx) (Some (time_After now timeUntilNext)) now of
           Never \<Rightarrow> [Blocked]
         | Done_first c \<Rightarrow> [ShuttingDown c]
         | Other_first r \<Rightarrow>
             RefreshCall r #
               (case NewTicker (r + int (refresh_took env 0)) interval of
                  None \<Rightarrow> [Panicked ''non-positive interval for NewTicker'']
                | Some ticker \<Rightarrow>
                    ticker_loop n RefreshCall (refresh_took env) ctx env ticker
                      (r + int (refresh_took env 0)) (r + int (refresh_took env 0)) 1))"

text \<open>
  \<open>waitAndGenerateInitialPredictions\<close>, entered at \<open>start\<close>; \<open>t\<close> is the instant at the
  top of the current iteration and \<open>k\<close> the number of inference runs made so far. The
  result is what the loop did, the instant and the number of runs at which it returned,
  and the error it returned; \<open>StillWaiting\<close> when \<open>n\<close> iterations were not enough.
\<close>

datatype wait_result = Returned "error option" | StillWaiting

fun waitAndGenerateInitialPredictions ::
  "nat \<Rightarrow> Config \<Rightarrow> Context \<Rightarrow> Env \<Rightarrow> Time \<Rightarrow> Time \<Rightarrow> nat \<Rightarrow> event list \<times> Time \<times> nat \<times> wait_result" where
  "waitAndGenerateInitialPredictions 0 cfg ctx env start t k = ([], t, k, StillWaiting)"
| "waitAndGenerateInitialPredictions (Suc n) cfg ctx env start t k =
     (if sint (MLServiceMaxWaitMin (Timing cfg) * Minute) < sint (time_Sub t start)
      then ([], t, k, Returned (Some (Errorf ''timeout waiting for ML service after %v''
                                        [ArgInt (sint (MLServiceMaxWaitMin (Timing cfg) * Minute))])))
      else
        (case inference_result env k of
           None \<Rightarrow> ([InitialInference t], t + int (inference_took env k), Suc k, Returned None)
         | Some err \<Rightarrow>
             (case select2 (pick_done env) (done_at ctx)
                     (Some (time_After (t + int (inference_took env k))
                              (MLServiceCheckIntervalSec (Timing cfg) * Second)))
                     (t + int (inference_took env k)) of
                Never \<Rightarrow> ([InitialInference t, Blocked], t + int (inference_took env k), Suc k, StillWaiting)
              | Done_first c \<Rightarrow>
                  ([InitialInference t], c, Suc k, Returned (Some (New ''context canceled'')))
              | Other_first r \<Rightarrow>
                  (case waitAndGenerateInitialPredictions n cfg ctx env start r (Suc k) of
                     (es, t', k', res) \<Rightarrow> (InitialInference t # es, t', k', res)))))"

text \<open>
  The goroutine of \<open>StartPredictionService\<close>: the initial phase, whose error is only
  logged, and then the ticker loop, on the ticker it is given.
\<close>

definition prediction_goroutine :: "nat \<Rightarrow> Config \<Rightarrow> Context \<Rightarrow> Env \<Rightarrow> Ticker \<Rightarrow> Time \<Rightarrow> event list" where
  "prediction_goroutine n cfg ctx env ticker now =
     (case waitAndGenerateInitialPredictions n cfg ctx env now now 0 of
        (es, t, k, StillWaiting) \<Rightarrow> es
      | (es, t, k, Returned err) \<Rightarrow>
          es @ ticker_loop n ScheduledInference (inference_took env) ctx env ticker (created ticker) t k)"

text \<open>
  \<open>StartPredictionService\<close> makes the ticker, defers \<open>ticker.Stop()\<close>, starts the
  goroutine and returns. The deferred call runs at that return, at the instant \<open>now\<close>
  at which the ticker was made; the goroutine shares the ticker, so the ticker it waits
  on has been stopped at \<open>now\<close>.
\<close>

definition StartPredictionService :: "Config \<Rightarrow> Context \<Rightarrow> Env \<Rightarrow> Time \<Rightarrow> nat \<Rightarrow> event list" where
  "StartPredictionService cfg ctx env now n =
     (case NewTicker now (PredictionIntervalHours (Timing cfg) * Hour) of
        None \<Rightarrow> [Panicked ''non-positive interval for NewTicker'']
      | Some ticker \<Rightarrow> prediction_goroutine n cfg ctx env (Ticker_Stop now ticker) now)"

text \<open>
  \<open>Server.Start\<close>, entered at \<open>now\<close>, with the signal arriving on \<open>quit\<close> at the instant
  \<open>quit\<close>. Both loops are started with \<open>context.Background()\<close>. \<open>Start\<close> returns when
  \<open>server.Shutdown\<close> has, which takes the time the environment says, at most the
  configured timeout; nothing of a loop happens after the process has exited.
\<close>

record Started =
  collection :: "event list"
  prediction :: "event list"
  returned_at :: Time

definition Start :: "Config \<Rightarrow> Env \<Rightarrow> Time \<Rightarrow> Time \<Rightarrow> nat \<Rightarrow> Started" where
  "Start cfg env now quit n =
     \<lparr> collection = startDataCollection cfg Background env now n,
       prediction = StartPredictionService cfg Background env now n,
       returned_at =
         quit + min (int (shutdown_took env))
                    (max 0 (sint (ServerShutdownTimeoutSec (Timing cfg) * Second))) \<rparr>"

text \<open>The instant of an event, for the events that have one.\<close>

fun event_time :: "event \<Rightarrow> Time option" where
  "event_time (RefreshCall t) = Some t"
| "event_time (InitialInference t) = Some t"
| "event_time (ScheduledInference t) = Some t"
| "event_time (ShuttingDown t) = Some t"
| "event_time (Panicked msg) = None"
| "event_time Blocked = None"

section \<open>Reference descriptions and sample inputs\<close>

text \<open>
  What the conversion loop is compared with: the records in the order of the input, each
  stamped with the parsed time, or with the clock reading of its own iteration.
  \<open>clock_reads_before parse raw i\<close> counts the elements before index \<open>i\<close> whose string
  does not parse, that is, the clock reads made before iteration \<open>i\<close>.
\<close>

fun stamped :: "(string \<Rightarrow> error + Time) \<Rightarrow> RawPrediction list \<Rightarrow> Clock \<Rightarrow> Prediction list" where
  "stamped parse [] c = []"
| "stamped parse (pred # rest) c =
     (case parse (RawPrediction.PredictionTime pred) of
        Inr t \<Rightarrow> Prediction_literal pred t # stamped parse rest c
      | Inl err \<Rightarrow>
          Prediction_literal pred (readings c (reads c)) # stamped parse rest (c\<lparr>reads := Suc (reads c)\<rparr>))"

definition clock_reads_before :: "(string \<Rightarrow> error + Time) \<Rightarrow> RawPrediction list \<Rightarrow> nat \<Rightarrow> nat" where
  "clock_reads_before parse raw i =
     length (filter (\<lambda>pred. isl (parse (RawPrediction.PredictionTime pred))) (take i raw))"

text \<open>The records of the test files, and collaborators that answer as the mocks do.\<close>

definition sample_station :: DivvyStation where
  "sample_station =
     \<lparr> DivvyStation.StationID = ''123'', DivvyStation.Name = ''Test Station'',
       DivvyStation.Lat = 0x4044F06594AF4F0E, DivvyStation.Lon = 0xC055E84EA4A8C155,
       DivvyStation.Capacity = 15 \<rparr>"

definition sample_status :: DivvyStationStatus where
  "sample_status =
     \<lparr> DivvyStationStatus.StationID = ''123'', DivvyStationStatus.NumBikesAvailable = 5,
       DivvyStationStatus.NumDocksAvailable = 10, DivvyStationStatus.IsInstalled = 1,
       DivvyStationStatus.IsRenting = 1, DivvyStationStatus.IsReturning = 1,
       DivvyStationStatus.LastReported = 1640995200 \<rparr>"

definition unnamed_station :: DivvyStation where
  "unnamed_station =
     \<lparr> DivvyStation.StationID = [], DivvyStation.Name = [],
       DivvyStation.Lat = 0, DivvyStation.Lon = 0, DivvyStation.Capacity = - 1 \<rparr>"

definition AnError :: error where
  "AnError = New ''assert.AnError general error for testing''"

definition mock_database :: "error option \<Rightarrow> error option \<Rightarrow> Prediction list \<times> error option \<Rightarrow> DatabaseInterface" where
  "mock_database upsertError insertError latest =
     \<lparr> UpsertStations = (\<lambda>_. upsertError), InsertAvailabilities = (\<lambda>_. insertError),
       InsertPredictions = (\<lambda>_. None), GetLatestPredictions = latest \<rparr>"

definition mock_service ::
  "DivvyStation list \<times> DivvyStationStatus list \<times> error option \<Rightarrow> error option \<Rightarrow> StationService" where
  "mock_service fetched upsertError =
     \<lparr> StationService.database = mock_database upsertError None ([], None),
       divvyClient = \<lparr> FetchStationData = fetched \<rparr> \<rparr>"

definition sample_raw :: RawPrediction where
  "sample_raw =
     \<lparr> RawPrediction.StationID = ''123'', RawPrediction.PredictedAvailabilityClass = 1,
       RawPrediction.PredictionTime = ''2023-01-01T12:00:00Z'', RawPrediction.HorizonHours = 6,
       RawPrediction.AvailabilityPrediction = ''green'' \<rparr>"

definition sample_response :: "int \<Rightarrow> PredictionResponse" where
  "sample_response n =
     \<lparr> Predictions = [sample_raw], Count = n, Timestamp = ''2023-01-01T12:00:00Z'' \<rparr>"

definition mock_gateway :: "PredictionResponse \<Rightarrow> MLService" where
  "mock_gateway p =
     \<lparr> newRequest = None, do = Inr \<lparr> StatusCode = 200, Body = ''{...}'' \<rparr>,
       decode = (\<lambda>_. Inr p) \<rparr>"

text \<open>
  A parser that knows one timestamp: 2023-01-01T12:00:00Z is 63808171200 seconds after
  the zero time. Every other string is rejected, as a malformed one is.
\<close>

definition sample_parse :: "string \<Rightarrow> error + Time" where
  "sample_parse str =
     (if str = ''2023-01-01T12:00:00Z'' then Inr (63808171200 * 1000000000)
      else Inl (New ''parsing time: cannot parse''))"

definition sample_clock :: Clock where
  "sample_clock = \<lparr> readings = (\<lambda>k. 63900000000000000000 + int k), reads = 0 \<rparr>"

text \<open>
  The timing defaults of \<open>LoadConfig\<close> (15 minutes, 2 hours, 10 seconds, 5 minutes,
  10 seconds) with a database URL, and the same with a collection interval of
  153722868 minutes. The sample environment: a fetch takes 2 seconds, an inference run
  succeeds and takes 3 seconds, the HTTP server shuts down in 10 seconds.
  \<open>quarter_to\<close> is 2026-10-31 07:14:50 UTC, ten seconds before a quarter-hour.
\<close>

definition sample_config :: Config where
  "sample_config =
     \<lparr> Database = \<lparr> URL = ''postgres://db/divvy'' \<rparr>,
       Server = \<lparr> Port = ''8080'', Environment = [] \<rparr>,
       Timing = \<lparr> DataCollectionIntervalMin = 15, PredictionIntervalHours = 2,
                  ServerShutdownTimeoutSec = 10, MLServiceMaxWaitMin = 5,
                  MLServiceCheckIntervalSec = 10 \<rparr> \<rparr>"

definition long_interval_config :: Config where
  "long_interval_config =
     sample_config\<lparr>Timing := (Timing sample_config)\<lparr>DataCollectionIntervalMin := 153722868\<rparr>\<rparr>"

definition sample_env :: Env where
  "sample_env =
     \<lparr> refresh_took = (\<lambda>k. 2000000000), inference_result = (\<lambda>k. None),
       inference_took = (\<lambda>k. 3000000000), shutdown_took = 10000000000,
       pick_done = (\<lambda>t. True) \<rparr>"

definition quarter_to :: Time where
  "quarter_to = 63929027690 * 1000000000"

section \<open>Properties of the collection use case\<close>

lemma range_assign_length: "length (range_assign f i src out) = length out"
  by (induction src arbitrary: i out) auto

lemma range_assign_eq:
  "i + length src \<le> length out \<Longrightarrow>
   range_assign f i src out = take i out @ map f src @ drop (i + length src) out"
proof (induction src arbitrary: i out)
  case Nil
  then show ?case by simp
next
  case (Cons x src)
  have i: "i < length out" using Cons.prems by simp
  have "range_assign f i (x # src) out = range_assign f (Suc i) src (out[i := f x])"
    by simp
  also have "\<dots> = take (Suc i) (out[i := f x]) @ map f src
                   @ drop (Suc i + length src) (out[i := f x])"
    using Cons.prems by (intro Cons.IH) simp
  also have "take (Suc i) (out[i := f x]) = take i out @ [f x]"
    using i by (simp add: take_Suc_conv_app_nth)
  also have "drop (Suc i + length src) (out[i := f x]) = drop (i + length (x # src)) out"
    by simp
  finally show ?case by simp
qed

lemma make_and_fill_map: "make_and_fill zero f src = map f src"
  by (simp add: make_and_fill_def range_assign_eq)

section \<open>Claims about the collection use case\<close>

text \<open>
  Claim C1, as the code has it. After a fetch that returned no error,
  \<open>RefreshStationData\<close> calls \<open>UpsertStations\<close> with exactly \<open>len(stations)\<close> converted
  records, and, when that call returns no error, calls \<open>InsertAvailabilities\<close> with
  exactly \<open>len(statuses)\<close> converted records; these are its only persistence calls. The
  empty slices are included. When \<open>UpsertStations\<close> returns an error the insert is not
  called at all, which is why the claim cannot promise the second call for every fetch
  result.
\<close>

theorem RefreshStationData_call_sizes:
  assumes "FetchStationData (divvyClient s) = (stations, statuses, None)"
  shows "\<exists>dbStations availabilities.
           length dbStations = length stations \<and>
           length availabilities = length statuses \<and>
           dbStations = map convertToStation stations \<and>
           availabilities = map convertToAvailability statuses \<and>
           snd (RefreshStationData s tr) =
             tr @ UpsertStations_call dbStations #
               (if UpsertStations (StationService.database s) dbStations = None
                then [InsertAvailabilities_call availabilities] else [])"
  using assms
  by (auto simp: RefreshStationData_def make_and_fill_map Let_def split: option.splits)

text \<open>The scenario of the test file: one station and its status, both writes succeed.\<close>

theorem RefreshStationData_call_sizes_witness:
  "FetchStationData (divvyClient (mock_service ([sample_station], [sample_status], None) None))
     = ([sample_station], [sample_status], None) \<and>
   snd (RefreshStationData (mock_service ([sample_station], [sample_status], None) None) [])
     = [UpsertStations_call [convertToStation sample_station],
        InsertAvailabilities_call [convertToAvailability sample_status]]"
  using RefreshStationData_call_sizes
          [of "mock_service ([sample_station], [sample_status], None) None"
              "[sample_station]" "[sample_status]" "[]"]
  by (simp add: mock_service_def mock_database_def)

text \<open>
  Claim C1 as stated fails: the fetch returns one station and one status without error,
  the upsert fails, and no \<open>InsertAvailabilities\<close> call is made.
\<close>

theorem RefreshStationData_insert_skipped_counterexample:
  "FetchStationData (divvyClient (mock_service ([sample_station], [sample_status], None) (Some AnError)))
     = ([sample_station], [sample_status], None) \<and>
   snd (RefreshStationData (mock_service ([sample_station], [sample_status], None) (Some AnError)) [])
     = [UpsertStations_call [convertToStation sample_station]] \<and>
   \<not> (\<exists>availabilities. InsertAvailabilities_call availabilities
          \<in> set (snd (RefreshStationData
                (mock_service ([sample_station], [sample_status], None) (Some AnError)) [])))"
  by (simp add: RefreshStationData_def make_and_fill_map mock_service_def mock_database_def)

text \<open>
  Claim C2. If the fetch returns an error, \<open>RefreshStationData\<close> returns that very error
  and makes no persistence call (the trace is unchanged). If the fetch succeeds and
  \<open>UpsertStations\<close> returns an error, the call returns an error that wraps it, and the
  only call made is the upsert: \<open>InsertAvailabilities\<close> is not invoked.
\<close>

theorem RefreshStationData_failure_policy:
  "(FetchStationData (divvyClient s) = (stations, statuses, Some err) \<longrightarrow>
      RefreshStationData s tr = (Some err, tr)) \<and>
   (FetchStationData (divvyClient s) = (stations, statuses, None) \<and>
    UpsertStations (StationService.database s) (map convertToStation stations) = Some err \<longrightarrow>
      fst (RefreshStationData s tr) = Some (Errorf ''failed to store stations: %w'' [ArgError err]) \<and>
      snd (RefreshStationData s tr) = tr @ [UpsertStations_call (map convertToStation stations)] \<and>
      (\<forall>availabilities. InsertAvailabilities_call availabilities \<notin> set (snd (RefreshStationData s tr)) - set tr))"
  by (auto simp: RefreshStationData_def make_and_fill_map Let_def split: option.splits)

text \<open>Both failures at the mocks of the test file.\<close>

theorem RefreshStationData_failure_policy_witness:
  "RefreshStationData (mock_service ([], [], Some AnError) None) [] = (Some AnError, []) \<and>
   RefreshStationData (mock_service ([sample_station], [sample_status], None) (Some AnError)) []
     = (Some (Errorf ''failed to store stations: %w'' [ArgError AnError]),
        [UpsertStations_call [convertToStation sample_station]])"
proof -
  let ?s1 = "mock_service ([], [], Some AnError) None"
  let ?s2 = "mock_service ([sample_station], [sample_status], None) (Some AnError)"
  have f1: "FetchStationData (divvyClient ?s1) = ([], [], Some AnError)"
    by (simp add: mock_service_def)
  have f2: "FetchStationData (divvyClient ?s2) = ([sample_station], [sample_status], None) \<and>
            UpsertStations (StationService.database ?s2) (map convertToStation [sample_station]) = Some AnError"
    by (simp add: mock_service_def mock_database_def)
  from RefreshStationData_failure_policy [of ?s1 "[]" "[]" AnError "[]"] f1
  have r1: "RefreshStationData ?s1 [] = (Some AnError, [])" by blast
  from RefreshStationData_failure_policy [of ?s2 "[sample_station]" "[sample_status]" AnError "[]"] f2
  have r2: "fst (RefreshStationData ?s2 []) = Some (Errorf ''failed to store stations: %w'' [ArgError AnError]) \<and>
            snd (RefreshStationData ?s2 []) = [] @ [UpsertStations_call (map convertToStation [sample_station])]"
    by blast
  from r1 r2 show ?thesis by (simp add: prod_eq_iff)
qed

text \<open>
  What a cycle passes to the station upsert after a fetch without error: one call,
  whose records are the feed records converted field by field, followed by the insert of
  the availabilities when the upsert returned no error, and nothing else. A record
  passes \<open>Station.Validate\<close> exactly when its feed record has a non-empty ID, a non-empty
  name and a capacity of at least 0.
\<close>

lemma upserted_stations_are_feed_records:
  assumes "FetchStationData (divvyClient s) = (stations, statuses, None)"
  shows "snd (RefreshStationData s tr) =
           tr @ UpsertStations_call (map convertToStation stations) #
             (if UpsertStations (StationService.database s) (map convertToStation stations) = None
              then [InsertAvailabilities_call (map convertToAvailability statuses)] else []) \<and>
         (\<forall>i < length stations.
            Station.StationID (map convertToStation stations ! i) = DivvyStation.StationID (stations ! i) \<and>
            Station.Name (map convertToStation stations ! i) = DivvyStation.Name (stations ! i) \<and>
            Station.Capacity (map convertToStation stations ! i) = DivvyStation.Capacity (stations ! i) \<and>
            (Station_Validate (map convertToStation stations ! i) = None \<longleftrightarrow>
               DivvyStation.StationID (stations ! i) \<noteq> [] \<and>
               DivvyStation.Name (stations ! i) \<noteq> [] \<and>
               0 \<le> DivvyStation.Capacity (stations ! i)))"
proof -
  have "snd (RefreshStationData s tr) = tr @ UpsertStations_call (map convertToStation stations) #
          (if UpsertStations (StationService.database s) (map convertToStation stations) = None
           then [InsertAvailabilities_call (map convertToAvailability statuses)] else [])"
    using assms
    by (auto simp: RefreshStationData_def make_and_fill_map Let_def split: option.splits)
  moreover have "\<forall>i < length stations.
      Station.StationID (map convertToStation stations ! i) = DivvyStation.StationID (stations ! i) \<and>
      Station.Name (map convertToStation stations ! i) = DivvyStation.Name (stations ! i) \<and>
      Station.Capacity (map convertToStation stations ! i) = DivvyStation.Capacity (stations ! i) \<and>
      (Station_Validate (map convertToStation stations ! i) = None \<longleftrightarrow>
         DivvyStation.StationID (stations ! i) \<noteq> [] \<and>
         DivvyStation.Name (stations ! i) \<noteq> [] \<and>
         0 \<le> DivvyStation.Capacity (stations ! i))"
    by (auto simp: convertToStation_def Station_Validate_def)
  ultimately show ?thesis by (rule conjI)
qed

text \<open>
  Claim C8 says that every record a collection cycle passes to the station upsert has a
  non-empty ID, a non-empty name and a capacity of at least 0, for every feed input. The
  code states this invariant itself, in \<open>Station.Validate\<close> and in the \<open>validate\<close> tags
  of the struct, but the cycle never calls it. At a feed whose only station has an empty
  ID, an empty name and capacity \<open>-1\<close>, the fetch and the cycle succeed, the one upsert
  call carries that record as it is, and \<open>Station.Validate\<close> rejects the record.
\<close>

theorem upsert_receives_invalid_station:
  "FetchStationData (divvyClient (mock_service ([unnamed_station], [], None) None))
     = ([unnamed_station], [], None) \<and>
   RefreshStationData (mock_service ([unnamed_station], [], None) None) []
     = (None, [UpsertStations_call [convertToStation unnamed_station], InsertAvailabilities_call []]) \<and>
   Station.StationID (convertToStation unnamed_station) = [] \<and>
   Station.Name (convertToStation unnamed_station) = [] \<and>
   Station.Capacity (convertToStation unnamed_station) = - 1 \<and>
   Station_Validate (convertToStation unnamed_station) = Some (New ''station ID is required'')"
  by (simp add: RefreshStationData_def make_and_fill_map mock_service_def mock_database_def
      convertToStation_def unnamed_station_def Station_Validate_def)

section \<open>Claims about the prediction gateway and the orchestrator\<close>

lemma Validate_range_None_iff:
  "Validate_range i preds = None \<longleftrightarrow>
     (\<forall>pred \<in> set preds. RawPrediction.StationID pred \<noteq> [] \<and> RawPrediction.PredictionTime pred \<noteq> [])"
  by (induction preds arbitrary: i) auto

lemma PredictionResponse_Validate_None_iff:
  "PredictionResponse_Validate p = None \<longleftrightarrow>
     Predictions p \<noteq> [] \<and> Count p = int (length (Predictions p)) \<and>
     (\<forall>pred \<in> set (Predictions p).
        RawPrediction.StationID pred \<noteq> [] \<and> RawPrediction.PredictionTime pred \<noteq> [])"
  by (simp add: PredictionResponse_Validate_def Validate_range_None_iff)

text \<open>
  Claim C3. For a response that was received with status 200 and decoded, \<open>GetPredictions\<close>
  returns an error (and then no batch, the result being the error alone) if and only if
  the predictions list is empty, or the count field differs from the length of the
  list, or some element has an empty station ID, or some element has an empty
  prediction-time string. A response with none of these defects is returned as decoded.
\<close>

theorem GetPredictions_rejects_iff_invalid:
  assumes "newRequest m = None" and "do m = Inr resp" and "StatusCode resp = 200"
    and "decode m (Body resp) = Inr p"
  shows "((\<exists>err. GetPredictions m = Inl err) \<longleftrightarrow>
            Predictions p = [] \<or> Count p \<noteq> int (length (Predictions p)) \<or>
            (\<exists>pred \<in> set (Predictions p). RawPrediction.StationID pred = []) \<or>
            (\<exists>pred \<in> set (Predictions p). RawPrediction.PredictionTime pred = [])) \<and>
         (Predictions p \<noteq> [] \<and> Count p = int (length (Predictions p)) \<and>
          (\<forall>pred \<in> set (Predictions p). RawPrediction.StationID pred \<noteq> []) \<and>
          (\<forall>pred \<in> set (Predictions p). RawPrediction.PredictionTime pred \<noteq> [])
          \<longrightarrow> GetPredictions m = Inr p)"
proof (cases "PredictionResponse_Validate p")
  case None
  then have "GetPredictions m = Inr p"
    using assms by (simp add: GetPredictions_def)
  moreover from None have "Predictions p \<noteq> [] \<and> Count p = int (length (Predictions p)) \<and>
     (\<forall>pred \<in> set (Predictions p).
        RawPrediction.StationID pred \<noteq> [] \<and> RawPrediction.PredictionTime pred \<noteq> [])"
    by (simp add: PredictionResponse_Validate_None_iff)
  ultimately show ?thesis by auto
next
  case (Some e)
  then have "GetPredictions m = Inl (Errorf ''invalid response: %w'' [ArgError e])"
    using assms by (simp add: GetPredictions_def)
  moreover from Some have "\<not> (Predictions p \<noteq> [] \<and> Count p = int (length (Predictions p)) \<and>
     (\<forall>pred \<in> set (Predictions p).
        RawPrediction.StationID pred \<noteq> [] \<and> RawPrediction.PredictionTime pred \<noteq> []))"
    using PredictionResponse_Validate_None_iff [of p] by simp
  ultimately show ?thesis by auto
qed

text \<open>The responses of the test file: count 1 for one element, and count 5 for one element.\<close>

theorem GetPredictions_rejects_iff_invalid_witness:
  "GetPredictions (mock_gateway (sample_response 1)) = Inr (sample_response 1) \<and>
   (\<exists>err. GetPredictions (mock_gateway (sample_response 5)) = Inl err)"
proof -
  have h: "newRequest (mock_gateway q) = None"
    "do (mock_gateway q) = Inr \<lparr> StatusCode = 200, Body = ''{...}'' \<rparr>"
    "StatusCode \<lparr> StatusCode = 200, Body = ''{...}'' \<rparr> = 200"
    "decode (mock_gateway q) (Body \<lparr> StatusCode = 200, Body = ''{...}'' \<rparr>) = Inr q" for q
    by (simp_all add: mock_gateway_def)
  have "GetPredictions (mock_gateway (sample_response 1)) = Inr (sample_response 1)"
    using GetPredictions_rejects_iff_invalid [OF h, of "sample_response 1"]
    by (simp add: sample_response_def sample_raw_def)
  moreover have "\<exists>err. GetPredictions (mock_gateway (sample_response 5)) = Inl err"
    using GetPredictions_rejects_iff_invalid [OF h, of "sample_response 5"]
    by (simp add: sample_response_def sample_raw_def)
  ultimately show ?thesis by simp
qed

lemma stamped_length: "length (stamped parse raw c) = length raw"
  by (induction raw arbitrary: c) (auto split: sum.splits)

lemma convert_range_eq:
  "i + length raw \<le> length out \<Longrightarrow>
   convert_range parse i raw out c =
     (take i out @ stamped parse raw c @ drop (i + length raw) out,
      c\<lparr>reads := reads c + clock_reads_before parse raw (length raw)\<rparr>)"
proof (induction raw arbitrary: i out c)
  case Nil
  then show ?case by (simp add: clock_reads_before_def)
next
  case (Cons pred rest)
  have i: "i < length out" using Cons.prems by simp
  have step: "convert_range parse (Suc i) rest (out[i := r]) c' =
      (take i out @ [r] @ stamped parse rest c' @ drop (i + length (pred # rest)) out,
       c'\<lparr>reads := reads c' + clock_reads_before parse rest (length rest)\<rparr>)" for r c'
  proof -
    have "Suc i + length rest \<le> length (out[i := r])" using Cons.prems by simp
    from Cons.IH [OF this, of c'] show ?thesis
      using i by (simp add: take_Suc_conv_app_nth)
  qed
  show ?case
  proof (cases "parse (RawPrediction.PredictionTime pred)")
    case (Inl err)
    then show ?thesis
      by (simp add: step time_Now_def clock_reads_before_def)
  next
    case (Inr t)
    then show ?thesis
      by (simp add: step clock_reads_before_def)
  qed
qed

lemma stamped_nth:
  "i < length raw \<Longrightarrow>
   stamped parse raw c ! i =
     Prediction_literal (raw ! i)
       (case parse (RawPrediction.PredictionTime (raw ! i)) of
          Inr t \<Rightarrow> t
        | Inl err \<Rightarrow> readings c (reads c + clock_reads_before parse raw i))"
proof (induction raw arbitrary: i c)
  case Nil
  then show ?case by simp
next
  case (Cons pred rest)
  show ?case
  proof (cases i)
    case 0
    then show ?thesis by (simp add: clock_reads_before_def split: sum.splits)
  next
    case (Suc j)
    then have j: "j < length rest" using Cons.prems by simp
    show ?thesis
      using Suc Cons.IH [OF j] by (simp add: clock_reads_before_def split: sum.splits)
  qed
qed

lemma convertPredictions_eq:
  "convertPredictions parse raw c =
     (Inr (stamped parse raw c), c\<lparr>reads := reads c + clock_reads_before parse raw (length raw)\<rparr>)"
  by (simp add: convertPredictions_def convert_range_eq stamped_length)

text \<open>
  Claim C4. \<open>convertPredictions\<close> never returns an error. Its output has one record per
  input element, in the order of the input, with the station ID, the class, the horizon
  and the label of that element. The prediction time of a record is the parsed time of
  its element; when the string does not parse, it is the reading of the wall clock taken
  in that iteration (the clock has been read once for every earlier element that did not
  parse).
\<close>

theorem convertPredictions_one_record_each:
  "\<exists>predictions c'.
     convertPredictions parse raw c = (Inr predictions, c') \<and>
     length predictions = length raw \<and>
     (\<forall>i < length raw.
        Prediction.StationID (predictions ! i) = RawPrediction.StationID (raw ! i) \<and>
        Prediction.PredictedAvailabilityClass (predictions ! i)
          = RawPrediction.PredictedAvailabilityClass (raw ! i) \<and>
        Prediction.HorizonHours (predictions ! i) = RawPrediction.HorizonHours (raw ! i) \<and>
        Prediction.AvailabilityPrediction (predictions ! i)
          = RawPrediction.AvailabilityPrediction (raw ! i) \<and>
        Prediction.PredictionTime (predictions ! i) =
          (case parse (RawPrediction.PredictionTime (raw ! i)) of
             Inr t \<Rightarrow> t
           | Inl err \<Rightarrow> readings c (reads c + clock_reads_before parse raw i)))"
  by (simp add: convertPredictions_eq stamped_length stamped_nth Prediction_literal_def)

text \<open>A batch of two, the second with a prediction time that does not parse.\<close>

theorem convertPredictions_one_record_each_witness:
  "\<exists>predictions c'.
     convertPredictions sample_parse
       [sample_raw, sample_raw\<lparr>RawPrediction.PredictionTime := ''tomorrow''\<rparr>] sample_clock
       = (Inr predictions, c') \<and>
     length predictions = 2 \<and>
     Prediction.StationID (predictions ! 1) = ''123'' \<and>
     Prediction.PredictionTime (predictions ! 0) = 63808171200000000000 \<and>
     Prediction.PredictionTime (predictions ! 1) = 63900000000000000000"
proof -
  let ?raw = "[sample_raw, sample_raw\<lparr>RawPrediction.PredictionTime := ''tomorrow''\<rparr>]"
  from convertPredictions_one_record_each [of sample_parse ?raw sample_clock]
  obtain predictions c' where
    r: "convertPredictions sample_parse ?raw sample_clock = (Inr predictions, c')" and
    l: "length predictions = length ?raw" and
    a: "\<forall>i < length ?raw.
        Prediction.StationID (predictions ! i) = RawPrediction.StationID (?raw ! i) \<and>
        Prediction.PredictedAvailabilityClass (predictions ! i)
          = RawPrediction.PredictedAvailabilityClass (?raw ! i) \<and>
        Prediction.HorizonHours (predictions ! i) = RawPrediction.HorizonHours (?raw ! i) \<and>
        Prediction.AvailabilityPrediction (predictions ! i)
          = RawPrediction.AvailabilityPrediction (?raw ! i) \<and>
        Prediction.PredictionTime (predictions ! i) =
          (case sample_parse (RawPrediction.PredictionTime (?raw ! i)) of
             Inr t \<Rightarrow> t
           | Inl err \<Rightarrow> readings sample_clock (reads sample_clock + clock_reads_before sample_parse ?raw i))"
    by blast
  have a0: "Prediction.PredictionTime (predictions ! 0) = 63808171200000000000"
    using a [rule_format, of 0] by (simp add: sample_parse_def sample_raw_def)
  have a1: "Prediction.StationID (predictions ! 1) = ''123'' \<and>
            Prediction.PredictionTime (predictions ! 1) = 63900000000000000000"
    using a [rule_format, of 1]
    by (simp add: sample_parse_def sample_raw_def sample_clock_def clock_reads_before_def)
  from r l a0 a1 show ?thesis by simp
qed

section \<open>Claims about the health endpoint\<close>

text \<open>
  Claim C9. The health endpoint answers 503 with status \<open>unhealthy\<close> exactly when
  \<open>GetLatestPredictions\<close> returned an error or no prediction; otherwise it answers 200
  with status \<open>healthy\<close> and \<open>predictions_count\<close> equal to the number of predictions.
\<close>

theorem HealthCheck_status:
  assumes "GetLatestPredictions db = (predictions, err)"
  shows "((code (HealthCheck db) = 503 \<and>
           map_of (body (HealthCheck db)) ''status'' = Some (JString ''unhealthy''))
            \<longleftrightarrow> err \<noteq> None \<or> length predictions = 0) \<and>
         (\<not> (err \<noteq> None \<or> length predictions = 0) \<longrightarrow>
            code (HealthCheck db) = 200 \<and>
            map_of (body (HealthCheck db)) ''status'' = Some (JString ''healthy'') \<and>
            map_of (body (HealthCheck db)) ''predictions_count''
              = Some (JInt (int (length predictions))))"
  using assms by (simp add: HealthCheck_def)

text \<open>The three cases of the test file: one prediction, none, and a failing query.\<close>

theorem HealthCheck_status_witness:
  "code (HealthCheck (mock_database None None ([zero_Prediction], None))) = 200 \<and>
   map_of (body (HealthCheck (mock_database None None ([zero_Prediction], None)))) ''status''
     = Some (JString ''healthy'') \<and>
   map_of (body (HealthCheck (mock_database None None ([zero_Prediction], None)))) ''predictions_count''
     = Some (JInt 1) \<and>
   code (HealthCheck (mock_database None None ([], None))) = 503 \<and>
   code (HealthCheck (mock_database None None ([], Some AnError))) = 503"
proof -
  have g: "GetLatestPredictions (mock_database None None l) = l" for l
    by (simp add: mock_database_def)
  show ?thesis
    using HealthCheck_status [OF g, of "[zero_Prediction]" None]
      HealthCheck_status [OF g, of "[]" None]
      HealthCheck_status [OF g, of "[]" "Some AnError"]
    by simp
qed

section \<open>Claims about the bulk writes\<close>

text \<open>
  Claim C10. Given an empty slice, each of \<open>UpsertStations\<close>, \<open>InsertAvailabilities\<close>
  and \<open>InsertPredictions\<close> returns \<open>nil\<close> and leaves the database handle as it was: no
  operation is asked of the driver, so no transaction is begun.
\<close>

theorem bulk_writes_skip_empty:
  "Database_UpsertStations d [] = (None, d) \<and>
   Database_InsertAvailabilities d [] = (None, d) \<and>
   Database_InsertPredictions d [] = (None, d)"
  by (simp add: Database_UpsertStations_def Database_InsertAvailabilities_def
      Database_InsertPredictions_def)

text \<open>By contrast, a non-empty batch of stations begins a transaction first.\<close>

lemma exec_stations_oplog:
  "\<exists>ops. oplog (snd (exec_stations stations d)) = oplog d @ ops"
proof (induction stations arbitrary: d)
  case Nil
  then show ?case by simp
next
  case (Cons station rest)
  show ?case
  proof (cases "fst (run_op (ExecContext [SqlString (Station.StationID station), SqlString (Station.Name station),
                                SqlFloat (Station.Lat station), SqlFloat (Station.Lon station),
                                SqlInt (Station.Capacity station)]) d)")
    case None
    then show ?thesis
      using Cons.IH [of "snd (run_op (ExecContext [SqlString (Station.StationID station), SqlString (Station.Name station),
                                SqlFloat (Station.Lat station), SqlFloat (Station.Lon station),
                                SqlInt (Station.Capacity station)]) d)"]
      by (auto simp: run_op_def)
  next
    case (Some e)
    then show ?thesis by (auto simp: run_op_def)
  qed
qed

lemma UpsertStations_nonempty_begins:
  assumes "stations \<noteq> []"
  shows "\<exists>ops. oplog (snd (Database_UpsertStations d stations)) = oplog d @ BeginTx # ops"
proof -
  let ?d1 = "snd (run_op BeginTx d)"
  let ?d2 = "snd (run_op (PrepareContext queryUpsertStation) ?d1)"
  obtain ops where ops: "oplog (snd (exec_stations stations ?d2)) = oplog ?d2 @ ops"
    using exec_stations_oplog by blast
  show ?thesis
    using assms ops
    by (auto simp: Database_UpsertStations_def run_op_def deferred_Rollback_def
        deferred_Close_Rollback_def split: prod.splits option.splits)
qed

section \<open>Claims about the scheduler\<close>

text \<open>The definitions that evaluate the scheduler on the sample inputs.\<close>

lemmas sched_defs = startDataCollection_def StartPredictionService_def prediction_goroutine_def Start_def
  sample_config_def sample_env_def quarter_to_def Minute_def Second_def Hour_def
  time_Add_def time_Truncate_def time_Sub_def time_After_def select2_def NewTicker_def
  Ticker_Stop_def tick_ready_def next_tick_def

text \<open>
  An interval of at most 153722867 minutes fits a \<open>Duration\<close>: the multiplication by
  \<open>time.Minute\<close> does not wrap.
\<close>

lemma Minute_eq: "Minute = 60000000000"
  by (simp add: Minute_def Second_def)

lemma interval_no_wrap:
  fixes m :: "64 word"
  assumes "0 < sint m" and "sint m \<le> 153722867"
  shows "sint (m * Minute) = sint m * 60000000000"
proof -
  have "sint (m * Minute) = signed_take_bit 63 (sint m * 60000000000)"
    by (simp add: Minute_eq sint_word_ariths)
  also have "\<dots> = sint m * 60000000000"
    using assms by (intro signed_take_bit_int_eq_self) simp_all
  finally show ?thesis .
qed

text \<open>The instant \<open>now - now mod iv + iv\<close> is the least multiple of \<open>iv\<close> after \<open>now\<close>.\<close>

lemma boundary_least:
  fixes now iv x :: int
  assumes "0 < iv" and "now < x" and "x mod iv = 0"
  shows "now - now mod iv + iv \<le> x"
proof -
  have x: "x = (x div iv) * iv" using assms(3) by (simp add: mod_eq_0_iff_dvd)
  have n: "now = (now div iv) * iv + now mod iv" by simp
  have "now div iv \<le> x div iv" using assms by (simp add: zdiv_mono1)
  moreover have "now div iv \<noteq> x div iv"
  proof
    assume "now div iv = x div iv"
    then have "x = now - now mod iv" using x n by (metis add_diff_cancel_right')
    moreover have "0 \<le> now mod iv" using assms(1) by simp
    ultimately show False using assms(2) by simp
  qed
  ultimately have "now div iv + 1 \<le> x div iv" by simp
  then have "(now div iv + 1) * iv \<le> (x div iv) * iv"
    using assms(1) by (simp add: mult_right_mono)
  moreover have "(now div iv + 1) * iv = now - now mod iv + iv"
    by (simp add: algebra_simps minus_mod_eq_mult_div [symmetric])
  ultimately show ?thesis using x by simp
qed

lemma sint_word_of_int_64:
  fixes k :: int
  assumes "- (2 ^ 63) \<le> k" and "k < 2 ^ 63"
  shows "sint (word_of_int k :: 64 word) = k"
proof -
  have "sint (word_of_int k :: 64 word) = signed_take_bit 63 k"
    by (simp add: sint_sbintrunc')
  also have "\<dots> = k" using assms by (rule signed_take_bit_int_eq_self)
  finally show ?thesis .
qed

text \<open>The timer of the first \<open>select\<close> is due at that instant.\<close>

lemma first_wait:
  fixes d :: "64 word"
  assumes "0 < sint d"
  shows "time_After now (time_Sub (time_Add (time_Truncate now d) d) now) = now - now mod sint d + sint d"
proof -
  let ?iv = "sint d"
  have r: "0 \<le> now mod ?iv" "now mod ?iv < ?iv" using assms by simp_all
  have hi: "?iv < 2 ^ 63" using sint_lt [of d] by simp
  have diff: "time_Add (time_Truncate now d) d - now = ?iv - now mod ?iv"
    using assms by (simp add: time_Add_def time_Truncate_def)
  have rng: "0 < ?iv - now mod ?iv" "?iv - now mod ?iv < 2 ^ 63" using r hi by simp_all
  have "time_Sub (time_Add (time_Truncate now d) d) now = word_of_int (?iv - now mod ?iv)"
    unfolding time_Sub_def diff using rng by simp
  moreover have "sint (word_of_int (?iv - now mod ?iv) :: 64 word) = ?iv - now mod ?iv"
    using rng by (intro sint_word_of_int_64) simp_all
  ultimately show ?thesis using rng by (simp add: time_After_def)
qed

text \<open>
  When the interval is positive and at most 153722867 minutes (the longest whose
  nanoseconds fit Go's 64-bit \<open>Duration\<close>; \<open>iv\<close> is its length in nanoseconds), the
  loop does what its comments say. The first thing it does is to call
  \<open>RefreshStationData\<close> at the next aligned boundary \<open>b\<close>: \<open>b\<close> is a multiple of the
  interval since the zero time, it is later than \<open>now\<close>, and no multiple of the interval
  lies between. This needs the context of the loop not to be cancelled up to that
  boundary; under \<open>Server.Start\<close> it is the background context, which never is.
\<close>

lemma first_collection_at_next_boundary:
  assumes "0 < sint (DataCollectionIntervalMin (Timing cfg))"
    and "sint (DataCollectionIntervalMin (Timing cfg)) \<le> 153722867"
    and "iv = sint (DataCollectionIntervalMin (Timing cfg)) * 60000000000"
    and "case done_at ctx of None \<Rightarrow> True | Some c \<Rightarrow> now - now mod iv + iv < c"
  shows "\<exists>b rest. startDataCollection cfg ctx env now n = RefreshCall b # rest \<and>
           now < b \<and> b mod iv = 0 \<and> (\<forall>x. now < x \<and> x mod iv = 0 \<longrightarrow> b \<le> x)"
proof -
  let ?d = "DataCollectionIntervalMin (Timing cfg) * Minute"
  let ?b = "now - now mod iv + iv"
  have d: "sint ?d = iv" using assms(1,2,3) by (simp add: interval_no_wrap)
  have iv: "0 < iv" using assms(1,3) by simp
  have wait: "time_After now (time_Sub (time_Add (time_Truncate now ?d) ?d) now) = ?b"
    using first_wait [of ?d now] iv d by simp
  have later: "now < ?b"
  proof -
    have "now mod iv < iv" using iv by simp
    then show ?thesis by simp
  qed
  have sel: "select2 (pick_done env) (done_at ctx) (Some ?b) now = Other_first ?b"
    using assms(4) later by (cases "done_at ctx") (auto simp: select2_def max_def)
  obtain rest where run: "startDataCollection cfg ctx env now n = RefreshCall ?b # rest"
    by (simp add: startDataCollection_def Let_def wait sel)
  have aligned: "?b mod iv = 0" by (simp add: mod_diff_left_eq [symmetric])
  have least: "\<forall>x. now < x \<and> x mod iv = 0 \<longrightarrow> ?b \<le> x"
    by (auto intro: boundary_least [OF iv])
  show ?thesis
  proof (intro exI conjI)
    show "startDataCollection cfg ctx env now n = RefreshCall ?b # rest" by (fact run)
    show "now < ?b" by (fact later)
    show "?b mod iv = 0" by (fact aligned)
    show "\<forall>x. now < x \<and> x mod iv = 0 \<longrightarrow> ?b \<le> x" by (fact least)
  qed
qed

text \<open>
  With the default interval of 15 minutes and a start at 07:14:50, the first call is at
  07:15:00.
\<close>

lemma first_collection_default_interval:
  "0 < sint (DataCollectionIntervalMin (Timing sample_config)) \<and>
   sint (DataCollectionIntervalMin (Timing sample_config)) \<le> 153722867 \<and>
   (\<exists>b rest. startDataCollection sample_config Background sample_env quarter_to 0 = RefreshCall b # rest \<and>
      quarter_to < b \<and> b mod 900000000000 = 0 \<and> b \<le> 63929027700 * 1000000000)"
proof -
  have h1: "0 < sint (DataCollectionIntervalMin (Timing sample_config))"
    and h2: "sint (DataCollectionIntervalMin (Timing sample_config)) \<le> 153722867"
    and h3: "900000000000 = sint (DataCollectionIntervalMin (Timing sample_config)) * 60000000000"
    by (simp_all add: sample_config_def)
  have h4: "case done_at Background of None \<Rightarrow> True
            | Some c \<Rightarrow> quarter_to - quarter_to mod 900000000000 + 900000000000 < c"
    by simp
  have "\<exists>b rest. startDataCollection sample_config Background sample_env quarter_to 0 = RefreshCall b # rest \<and>
           quarter_to < b \<and> b mod 900000000000 = 0 \<and>
           (\<forall>x. quarter_to < x \<and> x mod 900000000000 = 0 \<longrightarrow> b \<le> x)"
    by (rule first_collection_at_next_boundary [OF h1 h2 h3 h4])
  then obtain b where "\<exists>rest. startDataCollection sample_config Background sample_env quarter_to 0 = RefreshCall b # rest \<and>
           quarter_to < b \<and> b mod 900000000000 = 0 \<and>
           (\<forall>x. quarter_to < x \<and> x mod 900000000000 = 0 \<longrightarrow> b \<le> x)" ..
  then obtain rest where
    all: "startDataCollection sample_config Background sample_env quarter_to 0 = RefreshCall b # rest \<and>
           quarter_to < b \<and> b mod 900000000000 = 0 \<and>
           (\<forall>x. quarter_to < x \<and> x mod 900000000000 = 0 \<longrightarrow> b \<le> x)" ..
  have q: "quarter_to < 63929027700 * 1000000000 \<and> (63929027700 * 1000000000 :: int) mod 900000000000 = 0"
    by (simp add: quarter_to_def)
  from all have "quarter_to < 63929027700 * 1000000000 \<and> (63929027700 * 1000000000 :: int) mod 900000000000 = 0
        \<longrightarrow> b \<le> 63929027700 * 1000000000"
    by (elim conjE allE)
  with q have le: "b \<le> 63929027700 * 1000000000" by (rule_tac mp)
  have "startDataCollection sample_config Background sample_env quarter_to 0 = RefreshCall b # rest \<and>
      quarter_to < b \<and> b mod 900000000000 = 0 \<and> b \<le> 63929027700 * 1000000000"
    using all le by (intro conjI) (elim conjE, assumption)+
  then have "\<exists>b rest. startDataCollection sample_config Background sample_env quarter_to 0 = RefreshCall b # rest \<and>
      quarter_to < b \<and> b mod 900000000000 = 0 \<and> b \<le> 63929027700 * 1000000000"
    by (intro exI)
  with h1 h2 show ?thesis by (intro conjI)
qed

text \<open>
  Claim C7 says that for every positive collection interval the first call of
  \<open>RefreshStationData\<close> is at the next aligned boundary and never at the start itself.
  The comments of \<open>startDataCollection\<close> say the same (wait until the next boundary,
  first fetch at the boundary). The code breaks it for long intervals: 153722868 minutes
  is a positive interval that \<open>Config.Validate\<close> accepts, but its product with
  \<open>time.Minute\<close> wraps to a negative \<open>Duration\<close>, which nothing guards against.
  \<open>Truncate\<close> then returns the start instant, the computed wait is negative, and,
  whatever the start instant \<open>now\<close> and the environment, the loop calls
  \<open>RefreshStationData\<close> at \<open>now\<close> itself; \<open>time.NewTicker\<close> panics right after.
\<close>

theorem first_collection_immediate_on_wrapped_interval:
  "Config_Validate long_interval_config = None \<and>
   0 < sint (DataCollectionIntervalMin (Timing long_interval_config)) \<and>
   sint (DataCollectionIntervalMin (Timing long_interval_config) * Minute) = - 9223371993709551616 \<and>
   startDataCollection long_interval_config Background env now n
     = [RefreshCall now, Panicked ''non-positive interval for NewTicker'']"
  by (simp add: startDataCollection_def long_interval_config_def sample_config_def Config_Validate_def
      Minute_def Second_def time_Add_def time_Truncate_def time_Sub_def time_After_def
      select2_def NewTicker_def)

text \<open>The same at 07:14:50, ten seconds before a quarter-hour: the fetch is made at once.\<close>

theorem first_collection_immediate_on_wrapped_interval_witness:
  "startDataCollection long_interval_config Background sample_env quarter_to (Suc (Suc 0))
     = [RefreshCall (63929027690 * 1000000000), Panicked ''non-positive interval for NewTicker'']"
  using first_collection_immediate_on_wrapped_interval [of sample_env quarter_to "Suc (Suc 0)"]
  by (simp add: quarter_to_def)

text \<open>The initial phase of the prediction loop makes initial runs only.\<close>

lemma wait_events_subset:
  "set (fst (waitAndGenerateInitialPredictions n cfg ctx env start t k))
     \<subseteq> range InitialInference \<union> {Blocked}"
proof (induction n arbitrary: t k)
  case 0
  then show ?case by simp
next
  case (Suc n)
  show ?case
  proof (cases "inference_result env k")
    case None
    then show ?thesis by simp
  next
    case (Some err)
    show ?thesis
    proof (cases "select2 (pick_done env) (done_at ctx)
                    (Some (time_After (t + int (inference_took env k))
                             (MLServiceCheckIntervalSec (Timing cfg) * Second)))
                    (t + int (inference_took env k))")
      case (Other_first r)
      obtain es t' k' res where
        w: "waitAndGenerateInitialPredictions n cfg ctx env start r (Suc k) = (es, t', k', res)"
        by (metis prod_cases4)
      have "set es \<subseteq> range InitialInference \<union> {Blocked}"
        using Suc [of r "Suc k"] w by simp
      then show ?thesis using Some Other_first w by auto
    qed (use Some in simp_all)
  qed
qed

lemma wait_events:
  "e \<in> set (fst (waitAndGenerateInitialPredictions n cfg ctx env start t k)) \<Longrightarrow>
   (\<exists>u. e = InitialInference u) \<or> e = Blocked"
  using wait_events_subset [of n cfg ctx env start t k] by auto

text \<open>
  A ticker stopped at the instant it was made never has a tick ready, and a loop
  waiting on such a ticker makes no call.
\<close>

lemma stopped_ticker_silent:
  assumes "0 < period tk" and "stopped_at tk = Some (created tk)"
  shows "tick_ready tk (created tk) = None"
  using assms by (simp add: tick_ready_def next_tick_def)

lemma ticker_loop_silent:
  assumes "tick_ready tk prev = None"
  shows "ticker_loop n call took ctx env tk prev t k = [] \<or>
         ticker_loop n call took ctx env tk prev t k = [Blocked] \<or>
         (\<exists>c. ticker_loop n call took ctx env tk prev t k = [ShuttingDown c])"
  using assms by (cases n; cases "done_at ctx") (simp_all add: select2_def)

text \<open>
  Claim C5 says that after the initial phase the prediction loop runs inference on a
  fixed-period timer. The code does not: \<open>StartPredictionService\<close> defers
  \<open>ticker.Stop()\<close> in the function that starts the goroutine, not in the goroutine, so
  the ticker is stopped when that function returns. Whatever the configuration, the
  context, the environment and the number of iterations, the loop makes no scheduled
  inference run at any instant \<open>u\<close>.
\<close>

theorem prediction_ticker_never_fires:
  "ScheduledInference u \<notin> set (StartPredictionService cfg ctx env now n)"
proof (cases "NewTicker now (PredictionIntervalHours (Timing cfg) * Hour)")
  case None
  then show ?thesis by (simp add: StartPredictionService_def)
next
  case (Some ticker)
  let ?tk = "Ticker_Stop now ticker"
  from Some have tk: "0 < period ?tk" "stopped_at ?tk = Some (created ?tk)" "created ?tk = now"
    by (auto simp: NewTicker_def Ticker_Stop_def split: if_splits)
  then have silent: "tick_ready ?tk (created ?tk) = None"
    by (intro stopped_ticker_silent)
  obtain es t k res where w: "waitAndGenerateInitialPredictions n cfg ctx env now now 0 = (es, t, k, res)"
    by (metis prod_cases4)
  have es: "ScheduledInference u \<notin> set es"
    using wait_events [of "ScheduledInference u" n cfg ctx env now now 0] w by auto
  have loop: "ScheduledInference u \<notin>
      set (ticker_loop n ScheduledInference (inference_took env) ctx env ?tk (created ?tk) t k)"
    using ticker_loop_silent [OF silent, of n ScheduledInference "inference_took env" ctx env t k]
    by auto
  show ?thesis
    using Some w es loop
    by (cases res) (simp_all add: StartPredictionService_def prediction_goroutine_def)
qed

text \<open>
  With the default configuration and an inference service that answers the first run:
  the initial run is made, and then the loop waits for ever; in particular there is no
  run two hours later.
\<close>

theorem prediction_ticker_never_fires_witness:
  "StartPredictionService sample_config Background sample_env quarter_to (Suc (Suc (Suc 0)))
     = [InitialInference quarter_to, Blocked] \<and>
   ScheduledInference (quarter_to + 7200000000000)
     \<notin> set (StartPredictionService sample_config Background sample_env quarter_to (Suc (Suc (Suc 0))))"
  using prediction_ticker_never_fires
          [of "quarter_to + 7200000000000" sample_config Background sample_env quarter_to "Suc (Suc (Suc 0))"]
  by (simp add: sched_defs)

text \<open>
  The same goroutine on a ticker that is not stopped does run every two hours, which is
  what \<open>startDataCollection\<close> gets by making its ticker inside the goroutine.
\<close>

lemma running_ticker_fires:
  "prediction_goroutine (Suc (Suc 0)) sample_config Background sample_env
     \<lparr> created = quarter_to, period = 7200000000000, stopped_at = None \<rparr> quarter_to
   = [InitialInference quarter_to,
      ScheduledInference (quarter_to + 7200000000000),
      ScheduledInference (quarter_to + 14400000000000)]"
  by (simp add: sched_defs)

text \<open>Under the background context no loop ever takes the \<open>ctx.Done()\<close> case.\<close>

lemma ticker_loop_Background:
  "ShuttingDown c \<notin> set (ticker_loop n call took Background env tk prev t k) \<or> (\<exists>r. call r = ShuttingDown c)"
proof (induction n arbitrary: prev t k)
  case 0
  then show ?case by simp
next
  case (Suc n)
  show ?case
  proof (cases "tick_ready tk prev")
    case None
    then show ?thesis by (simp add: select2_def)
  next
    case (Some f)
    then show ?thesis
      using Suc [of "max f t" "max f t + int (took k)" "Suc k"]
      by (auto simp: select2_def)
  qed
qed

lemma wait_Background:
  "ShuttingDown c \<notin> set (fst (waitAndGenerateInitialPredictions n cfg ctx env start t k))"
  using wait_events [of "ShuttingDown c" n cfg ctx env start t k] by auto

lemma startDataCollection_Background:
  "ShuttingDown c \<notin> set (startDataCollection cfg Background env now n)"
proof -
  have "ShuttingDown c \<notin> set (ticker_loop n RefreshCall (refresh_took env) Background env tk prev t k)"
    for tk prev t k
    using ticker_loop_Background [of c n RefreshCall "refresh_took env" env tk prev t k] by auto
  then show ?thesis
    by (auto simp: startDataCollection_def Let_def select2_def split: option.splits)
qed

lemma StartPredictionService_Background:
  "ShuttingDown c \<notin> set (StartPredictionService cfg Background env now n)"
proof -
  have loop: "ShuttingDown c \<notin> set (ticker_loop n ScheduledInference (inference_took env) Background env tk prev t k)"
    for tk prev t k
    using ticker_loop_Background [of c n ScheduledInference "inference_took env" env tk prev t k] by auto
  obtain es t k res where w: "waitAndGenerateInitialPredictions n cfg Background env now now 0 = (es, t, k, res)"
    by (metis prod_cases4)
  have es: "ShuttingDown c \<notin> set es"
    using wait_Background [of c n cfg Background env now now 0] w by simp
  show ?thesis
    using w es loop
    by (cases res) (auto simp: StartPredictionService_def prediction_goroutine_def split: option.splits)
qed

text \<open>
  Claim C6 says that both loops observe the shutdown signal and terminate without
  starting new work. The code does not connect them to it: \<open>Server.Start\<close> starts both
  loops with \<open>context.Background()\<close>, and the signal received on \<open>quit\<close> only leads to
  \<open>server.Shutdown\<close>. What the two loops do is the same for every instant \<open>quit\<close> and
  \<open>quit'\<close> of the signal, and neither loop ever returns through its \<open>ctx.Done()\<close>
  case.
\<close>

theorem loops_never_see_the_signal:
  "collection (Start cfg env now quit n) = collection (Start cfg env now quit' n) \<and>
   prediction (Start cfg env now quit n) = prediction (Start cfg env now quit' n) \<and>
   ShuttingDown c \<notin> set (collection (Start cfg env now quit n)) \<and>
   ShuttingDown c \<notin> set (prediction (Start cfg env now quit n))"
  by (simp add: Start_def startDataCollection_Background StartPredictionService_Background)

text \<open>
  Started at 07:14:50 with the default configuration and signalled at 07:14:55, the
  process exits at 07:15:05; the collection loop starts a fetch at 07:15:00, after the
  signal.
\<close>

theorem loops_never_see_the_signal_witness:
  "Start sample_config sample_env quarter_to (quarter_to + 5000000000) (Suc 0) =
     \<lparr> collection = [RefreshCall (quarter_to + 10000000000), RefreshCall (quarter_to + 912000000000)],
       prediction = [InitialInference quarter_to, Blocked],
       returned_at = quarter_to + 15000000000 \<rparr> \<and>
   ShuttingDown (quarter_to + 5000000000)
     \<notin> set (collection (Start sample_config sample_env quarter_to (quarter_to + 5000000000) (Suc 0)))"
  using loops_never_see_the_signal
          [of sample_config sample_env quarter_to "quarter_to + 5000000000" "Suc 0"
              "quarter_to + 5000000000" "quarter_to + 5000000000"]
  by (simp add: sched_defs)

text \<open>
  The loop itself is written to stop: given a context that is cancelled at 07:14:55 it
  returns then, without a fetch.
\<close>

lemma cancellable_context_stops_the_loop:
  "startDataCollection sample_config (WithCancel (Some (quarter_to + 5000000000))) sample_env quarter_to (Suc 0)
     = [ShuttingDown (quarter_to + 5000000000)]"
  by (simp add: sched_defs)

end
